theory Spec2Isabelle
  imports Complex_Main "HOL-Library.AList"
begin

section \<open>Protocol session\<close>

text \<open>
  A reply of the device is classified into one of five statuses and reaches every
  registered callback as the four arguments \<open>(status, subunit, function_, value)\<close>.
  Python's \<open>str\<close> is modelled as \<open>string\<close>: the wire is ASCII.
\<close>

datatype YncaProtocolStatus = OK | UNDEFINED | RESTRICTED | ERROR | OTHER

record protocol_event =
  ev_status :: YncaProtocolStatus
  ev_subunit :: string
  ev_function :: string
  ev_value :: string

text \<open>A command is a GET of a function of a subunit, or a PUT of a value to it.\<close>

datatype command = GET string string | PUT string string string

datatype callback = ReceiverCallback | SubunitCallback string

datatype error =
  YncaInitializationFailedException
  | ValueError
  | UnsupportedOperationError
  | ConversionError

record connection =
  sent :: "command list"
  num_commands_sent :: int
  message_callbacks :: "callback list"

text \<open>
  Modelled from the spec: \<open>connection.py\<close> (class \<open>YncaConnection\<close>) is not among the
  sources. Section 4.4: \<open>get\<close> and \<open>put\<close> construct and transmit a command without
  waiting for a reply, the session maintains a monotonically increasing count of commands
  sent, and callbacks are registered and unregistered as in a set.
\<close>

definition connection_get :: "string \<Rightarrow> string \<Rightarrow> connection \<Rightarrow> connection" where
  "connection_get subunit funcname c =
     c\<lparr>sent := sent c @ [GET subunit funcname], num_commands_sent := num_commands_sent c + 1\<rparr>"

definition connection_put :: "string \<Rightarrow> string \<Rightarrow> string \<Rightarrow> connection \<Rightarrow> connection" where
  "connection_put subunit funcname parameter c =
     c\<lparr>sent := sent c @ [PUT subunit funcname parameter],
       num_commands_sent := num_commands_sent c + 1\<rparr>"

definition register_message_callback :: "callback \<Rightarrow> connection \<Rightarrow> connection" where
  "register_message_callback cb c = c\<lparr>message_callbacks := List.insert cb (message_callbacks c)\<rparr>"

definition unregister_message_callback :: "callback \<Rightarrow> connection \<Rightarrow> connection" where
  "unregister_message_callback cb c = c\<lparr>message_callbacks := removeAll cb (message_callbacks c)\<rparr>"

section \<open>Typed values and enums\<close>

text \<open>
  \<open>Shuffle\<close> is declared in \<open>function_mixins.py\<close>. \<open>Repeat\<close>, \<open>Playback\<close> and
  \<open>PlaybackInfo\<close> come from \<open>constants.py\<close>, which is not among the sources: the
  members below are the ones \<open>test_mediaplayback_subunits.py\<close> names, with the protocol
  strings it pairs them with.
\<close>

datatype Shuffle = Shuffle_ON | Shuffle_OFF

fun Shuffle_value :: "Shuffle \<Rightarrow> string" where
  "Shuffle_value Shuffle_ON = ''On''"
| "Shuffle_value Shuffle_OFF = ''Off''"

datatype Repeat = Repeat_SINGLE | Repeat_ALL

fun Repeat_value :: "Repeat \<Rightarrow> string" where
  "Repeat_value Repeat_SINGLE = ''Single''"
| "Repeat_value Repeat_ALL = ''All''"

datatype Playback = Playback_PLAY

fun Playback_value :: "Playback \<Rightarrow> string" where
  "Playback_value Playback_PLAY = ''Play''"

datatype PlaybackInfo = PlaybackInfo_PAUSE

fun PlaybackInfo_value :: "PlaybackInfo \<Rightarrow> string" where
  "PlaybackInfo_value PlaybackInfo_PAUSE = ''Pause''"

datatype typed_value =
  VStr string
  | VShuffle Shuffle
  | VRepeat Repeat
  | VPlaybackInfo PlaybackInfo

section \<open>Subunit instances\<close>

text \<open>
  Modelled from the spec: \<open>subunit.py\<close> (class \<open>SubunitBase\<close>) is not among the
  sources. Section 3: a subunit instance owns its id, a mapping from function name to the
  last known typed value and its registered update callbacks, which are called with
  \<open>(subunit_id, function_name, new_value)\<close>; section 4.3 gives it the states
  UNINITIALIZED, INITIALIZING, READY and CLOSED. The calls of the update callbacks are
  kept as a log.
\<close>

datatype lifecycle = UNINITIALIZED | INITIALIZING | READY | CLOSED

record subunit =
  su_id :: string
  su_state :: lifecycle
  attrs :: "(string \<times> typed_value) list"
  notifications :: "(string \<times> string \<times> typed_value option) list"

definition SubunitBase_init :: "string \<Rightarrow> subunit" where
  "SubunitBase_init subunit_id =
     \<lparr>su_id = subunit_id, su_state = UNINITIALIZED, attrs = [], notifications = []\<rparr>"

text \<open>
  \<open>SubunitBase._get\<close> and \<open>SubunitBase._put\<close> send through the session the subunit
  refers to, under the subunit's own id. The session is shared, so it is passed in and
  returned beside the subunit.
\<close>

definition subunit_get :: "string \<Rightarrow> 'a subunit_scheme \<Rightarrow> connection \<Rightarrow> connection" where
  "subunit_get funcname s c = connection_get (su_id s) funcname c"

definition subunit_put :: "string \<Rightarrow> string \<Rightarrow> 'a subunit_scheme \<Rightarrow> connection \<Rightarrow> connection" where
  "subunit_put funcname parameter s c = connection_put (su_id s) funcname parameter c"

section \<open>Zone (\<open>ynca/zone.py\<close>)\<close>

text \<open>
  Python floats are modelled as rationals: every finite double is one, and the zone only
  compares them and rounds them to halves, which is exact on doubles. NaN and the
  infinities are outside the model.
\<close>

record zone = subunit +
  max_volume :: rat
  volume :: "rat option"
  scenes :: "(string \<times> string) list"
  attr_inp :: "string option"
  attr_pwr :: "string option"
  attr_mute :: "string option"
  attr_soundprg :: "string option"
  attr_straight :: "string option"
  attr_zonename :: "string option"

definition reset_internal_state :: "zone \<Rightarrow> zone" where
  "reset_internal_state z =
     z\<lparr>max_volume := 33 / 2, volume := None, scenes := [],
       attr_inp := None, attr_pwr := None, attr_mute := None,
       attr_soundprg := None, attr_straight := None, attr_zonename := None\<rparr>"

text \<open>
  \<open>Zone.__init__\<close>: the base initialiser, then \<open>_reset_internal_state\<close>, which is what
  first gives the fields of the zone a value.
\<close>

definition Zone_init :: "string \<Rightarrow> zone" where
  "Zone_init subunit_id =
     reset_internal_state
       (subunit.extend (SubunitBase_init subunit_id)
          (zone.fields 0 None [] None None None None None None))"

definition on_initialize :: "zone \<Rightarrow> connection \<Rightarrow> zone \<times> connection" where
  "on_initialize z c =
     (let z1 = reset_internal_state z;
          c1 = subunit_get ''BASIC'' z1 c;
          c2 = subunit_get ''MAXVOL'' z1 c1;
          c3 = subunit_get ''SCENENAME'' z1 c2;
          c4 = subunit_get ''ZONENAME'' z1 c3
      in (z1, c4))"

text \<open>
  Modelled from the spec: \<open>SubunitBase.initialize\<close> is not among the sources. Section
  4.3: it transitions to INITIALIZING, issues the GET commands of the subunit and returns
  without blocking on replies. For a zone the commands are those of \<open>on_initialize\<close>.
\<close>

definition zone_initialize :: "zone \<Rightarrow> connection \<Rightarrow> zone \<times> connection" where
  "zone_initialize z c = on_initialize (z\<lparr>su_state := INITIALIZING\<rparr>) c"

text \<open>
  Modelled from the spec: \<open>system.py\<close> (class \<open>System\<close>) is not among the sources.
  It is the subunit with the id \<open>SYS\<close>; the commands its \<open>initialize\<close> issues are not
  known and none is modelled.
\<close>

definition SYS :: string where
  "SYS = ''SYS''"

definition System_init :: subunit where
  "System_init = SubunitBase_init SYS"

definition system_initialize :: "subunit \<Rightarrow> connection \<Rightarrow> subunit \<times> connection" where
  "system_initialize s c = (s\<lparr>su_state := INITIALIZING\<rparr>, c)"

section \<open>Receiver (\<open>ynca/receiver.py\<close>)\<close>

datatype subunit_instance = SystemInstance subunit | ZoneInstance zone

text \<open>
  The two dictionaries of the receiver are association lists: \<open>AList.update\<close> replaces
  the value of a known key in place and appends a new key at the end, as assignment to a
  Python \<open>dict\<close> does, so iteration follows insertion order.
\<close>

record receiver =
  rc_connection :: connection
  available_subunits :: "(string \<times> bool) list"
  initialized_event :: bool
  subunits :: "(string \<times> subunit_instance) list"

definition protocol_message_received :: "protocol_event \<Rightarrow> receiver \<Rightarrow> receiver" where
  "protocol_message_received ev r =
     (let r1 = (if ev_function ev = ''AVAIL''
                then r\<lparr>available_subunits :=
                         AList.update (ev_subunit ev) (ev_status ev = OK) (available_subunits r)\<rparr>
                else r)
      in if ev_subunit ev = SYS \<and> ev_function ev = ''VERSION''
         then r1\<lparr>initialized_event := True\<rparr>
         else r1)"

text \<open>
  \<open>threading.Event.wait(timeout)\<close>. The reader task delivers the incoming events, each
  with its arrival time in seconds since the wait began, in the order of arrival, and
  runs the receiver's callback on each. The wait is over when the callback has set the
  event, or when the next event would arrive after the timeout; an event arriving
  exactly at the timeout counts as in time. Events that follow the one that ended the
  wait are not run through the callback: the receiver unregisters it once the wait has
  returned.
\<close>

fun event_wait :: "rat \<Rightarrow> (rat \<times> protocol_event) list \<Rightarrow> receiver \<Rightarrow> receiver" where
  "event_wait timeout [] r = r"
| "event_wait timeout ((arrival, ev) # incoming) r =
     (if initialized_event r then r
      else if timeout < arrival then r
      else event_wait timeout incoming (protocol_message_received ev r))"

text \<open>
  \<open>_detect_available_subunits\<close>. The catalog of subunit ids (the enum \<open>Subunit\<close> of
  \<open>constants.py\<close>, not among the sources) is a parameter. The result is the exception
  raised, if any, and the receiver as the call leaves it. The product with the float
  \<open>0.120\<close> is taken exactly.
\<close>

definition detect_timeout :: "connection \<Rightarrow> int \<Rightarrow> rat" where
  "detect_timeout c num_commands_sent_start =
     of_int (num_commands_sent c - num_commands_sent_start) * (120 / 1000)"

definition detect_available_subunits ::
  "string list \<Rightarrow> (rat \<times> protocol_event) list \<Rightarrow> receiver \<Rightarrow> error option \<times> receiver" where
  "detect_available_subunits Subunit incoming r =
     (let r1 = r\<lparr>initialized_event := False\<rparr>;
          r2 = r1\<lparr>rc_connection := register_message_callback ReceiverCallback (rc_connection r1)\<rparr>;
          num_commands_sent_start = num_commands_sent (rc_connection r2);
          r3 = r2\<lparr>available_subunits := []\<rparr>;
          r4 = r3\<lparr>rc_connection :=
                   fold (\<lambda>subunit_id c. connection_get subunit_id ''AVAIL'' c) Subunit
                     (rc_connection r3)\<rparr>;
          r5 = r4\<lparr>rc_connection := connection_get SYS ''VERSION'' (rc_connection r4)\<rparr>;
          r6 = event_wait (detect_timeout (rc_connection r5) num_commands_sent_start) incoming r5
      in if \<not> initialized_event r6 then (Some YncaInitializationFailedException, r6)
         else (None, r6\<lparr>rc_connection :=
                          unregister_message_callback ReceiverCallback (rc_connection r6)\<rparr>))"

text \<open>
  \<open>_initialize_available_subunits\<close>. The list \<open>ZONES\<close> of \<open>constants.py\<close> is a
  parameter.
\<close>

definition initialize_subunit :: "string list \<Rightarrow> string \<times> bool \<Rightarrow> receiver \<Rightarrow> receiver" where
  "initialize_subunit ZONES entry r =
     (case entry of (subunit_id, available) \<Rightarrow>
        if \<not> available then r
        else if subunit_id \<in> set ZONES
        then (case zone_initialize (Zone_init subunit_id) (rc_connection r) of (z, c) \<Rightarrow>
                r\<lparr>rc_connection := c,
                  subunits := AList.update (su_id z) (ZoneInstance z) (subunits r)\<rparr>)
        else r)"

definition initialize_available_subunits :: "string list \<Rightarrow> receiver \<Rightarrow> receiver" where
  "initialize_available_subunits ZONES r =
     (case system_initialize System_init (rc_connection r) of (system, c) \<Rightarrow>
        let r1 = r\<lparr>rc_connection := c,
                   subunits := AList.update (su_id system) (SystemInstance system) (subunits r)\<rparr>
        in fold (initialize_subunit ZONES) (available_subunits r1) r1)"

text \<open>\<open>Receiver.__init__\<close>, with the connection that \<open>initialize\<close> sets before discovery.\<close>

definition Receiver_init :: "connection \<Rightarrow> receiver" where
  "Receiver_init c =
     \<lparr>rc_connection = c, available_subunits = [], initialized_event = False, subunits = []\<rparr>"

definition new_connection :: connection where
  "new_connection = \<lparr>sent = [], num_commands_sent = 0, message_callbacks = []\<rparr>"

text \<open>
  The availability dictionary after the receiver's callback has seen the AVAIL events
  \<open>es\<close>, in their order, starting from the dictionary \<open>al\<close>.
\<close>

definition record_avail :: "protocol_event list \<Rightarrow> (string \<times> bool) list \<Rightarrow> (string \<times> bool) list" where
  "record_avail es al = fold (\<lambda>e. AList.update (ev_subunit e) (ev_status e = OK)) es al"

text \<open>The timeout of a scan over a catalog of \<open>n\<close> subunit ids, in seconds.\<close>

definition scan_timeout :: "nat \<Rightarrow> rat" where
  "scan_timeout n = of_nat (n + 1) * (120 / 1000)"

text \<open>A small device, used to run the definitions on concrete inputs.\<close>

definition example_zones :: "string list" where
  "example_zones = [''MAIN'', ''ZONE2'', ''ZONE3'', ''ZONE4'']"

definition example_catalog :: "string list" where
  "example_catalog = [''SYS'', ''MAIN'', ''ZONE2'', ''TUN'']"

definition example_avail_events :: "(rat \<times> protocol_event) list" where
  "example_avail_events =
     [(1 / 10, \<lparr>ev_status = OK, ev_subunit = ''MAIN'', ev_function = ''AVAIL'', ev_value = ''Not ready''\<rparr>),
      (2 / 10, \<lparr>ev_status = UNDEFINED, ev_subunit = ''ZONE2'', ev_function = ''AVAIL'', ev_value = []\<rparr>),
      (3 / 10, \<lparr>ev_status = OK, ev_subunit = ''TUN'', ev_function = ''AVAIL'', ev_value = ''Ready''\<rparr>)]"

definition example_version_event :: protocol_event where
  "example_version_event =
     \<lparr>ev_status = OK, ev_subunit = ''SYS'', ev_function = ''VERSION'', ev_value = ''1.80/2.01''\<rparr>"

text \<open>The GET commands that \<open>on_initialize\<close> of a zone issues.\<close>

definition zone_polls :: "string \<Rightarrow> command list" where
  "zone_polls subunit_id =
     [GET subunit_id ''BASIC'', GET subunit_id ''MAXVOL'', GET subunit_id ''SCENENAME'',
      GET subunit_id ''ZONENAME'']"

text \<open>The receiver of the example after a discovery that succeeds.\<close>

definition discovered_example :: receiver where
  "discovered_example =
     snd (detect_available_subunits example_catalog
            (example_avail_events @ [(4 / 10, example_version_event)])
            (Receiver_init new_connection))"

section \<open>Numbers as text\<close>

text \<open>Python's \<open>str\<close> of an \<open>int\<close>: the decimal digits, after a minus sign if negative.\<close>

definition digit_char :: "nat \<Rightarrow> char" where
  "digit_char n = ''0123456789'' ! n"

fun string_of_nat :: "nat \<Rightarrow> string" where
  "string_of_nat n =
     (if n < 10 then [digit_char n] else string_of_nat (n div 10) @ [digit_char (n mod 10)])"

declare string_of_nat.simps [simp del]

definition string_of_int :: "int \<Rightarrow> string" where
  "string_of_int i = (if i < 0 then CHR ''-'' # string_of_nat (nat (- i)) else string_of_nat (nat i))"

text \<open>
  A step size is an \<open>int\<close> or a \<open>float\<close>. Python compares the two by value, and
  \<open>str.format\<close> prints an \<open>int\<close> as its digits and a \<open>float\<close> of integral value as the
  digits followed by \<open>.0\<close>. The text of a float is given for integral values (below
  \<open>10^16\<close>) only: \<open>volume_up\<close> and \<open>volume_down\<close> format no other float.
\<close>

datatype pynumber = PyInt int | PyFloat rat

fun number_value :: "pynumber \<Rightarrow> rat" where
  "number_value (PyInt i) = of_int i"
| "number_value (PyFloat r) = r"

fun format_number :: "pynumber \<Rightarrow> string" where
  "format_number (PyInt i) = string_of_int i"
| "format_number (PyFloat r) = string_of_int \<lfloor>r\<rfloor> @ ''.0''"

text \<open>
  Python's \<open>float\<close> of plain decimal text (\<open>16.5\<close>, \<open>-80.5\<close>), as the device sends it.
  It is narrower than the builtin: text with an exponent, with blanks around it, with
  underscores, or spelling \<open>inf\<close> or \<open>nan\<close> is refused here and read by \<open>float\<close>. The
  handlers below therefore take the conversion as a parameter; this one only runs the
  examples, on text where the two agree.
\<close>

definition is_digit :: "char \<Rightarrow> bool" where
  "is_digit ch = (ch \<in> set ''0123456789'')"

definition digit_value :: "char \<Rightarrow> nat" where
  "digit_value ch = length (takeWhile (\<lambda>d. d \<noteq> ch) ''0123456789'')"

definition nat_of_digits :: "string \<Rightarrow> nat" where
  "nat_of_digits s = foldl (\<lambda>acc ch. 10 * acc + digit_value ch) 0 s"

definition float_of_decimal :: "string \<Rightarrow> rat option" where
  "float_of_decimal s =
     (let negative = (take 1 s = ''-'');
          body = (if take 1 s = ''-'' \<or> take 1 s = ''+'' then drop 1 s else s);
          ipart = takeWhile is_digit body;
          rest = dropWhile is_digit body;
          fpart = (if take 1 rest = ''.'' then drop 1 rest else [])
      in if (rest \<noteq> [] \<and> take 1 rest \<noteq> ''.'') \<or> \<not> list_all is_digit fpart
            \<or> (ipart = [] \<and> fpart = [])
         then None
         else Some ((if negative then - 1 else 1) *
                (of_nat (nat_of_digits ipart) + of_nat (nat_of_digits fpart) / 10 ^ length fpart)))"

text \<open>
  Modelled from the spec: \<open>helpers.py\<close> (\<open>number_to_string_with_stepsize\<close>) is not
  among the sources. Section 4.1, float converter: the number is rounded to the nearest
  multiple of the step size and rendered with the minimal needed precision, so that a
  step size of 0.5 renders whole values without a decimal point and half-values with one
  decimal digit. The call sites pass \<open>(value, 1, 0.5)\<close>: the middle argument is taken as
  the largest number of decimals. The spec does not say which way a value halfway
  between two multiples goes; here it goes up.
\<close>

definition strip_trailing_zeros :: "string \<Rightarrow> string" where
  "strip_trailing_zeros s = rev (dropWhile (\<lambda>ch. ch = CHR ''0'') (rev s))"

definition pad_zeros :: "nat \<Rightarrow> string \<Rightarrow> string" where
  "pad_zeros width s = replicate (width - length s) CHR ''0'' @ s"

definition render_minimal :: "rat \<Rightarrow> nat \<Rightarrow> string" where
  "render_minimal r decimals =
     (let scaled = round (r * 10 ^ decimals);
          ipart = nat \<bar>scaled\<bar> div 10 ^ decimals;
          fpart = nat \<bar>scaled\<bar> mod 10 ^ decimals;
          fdigits = strip_trailing_zeros (pad_zeros decimals (string_of_nat fpart))
      in (if scaled < 0 then ''-'' else []) @ string_of_nat ipart @
         (if fdigits = [] then [] else CHR ''.'' # fdigits))"

definition number_to_string_with_stepsize :: "rat \<Rightarrow> nat \<Rightarrow> rat \<Rightarrow> string" where
  "number_to_string_with_stepsize v decimals stepsize =
     (let steps = round (v / stepsize);
          stepped_value = of_int steps * stepsize
      in render_minimal stepped_value decimals)"

section \<open>Zone: volume (\<open>ynca/zone.py\<close>)\<close>

text \<open>
  \<open>_handle_vol\<close> and \<open>_handle_maxvol\<close>: \<open>float(value)\<close> raises \<open>ValueError\<close> on text
  that is no number. The builtin is the parameter \<open>float\<close>.
\<close>

definition handle_vol :: "(string \<Rightarrow> rat option) \<Rightarrow> string \<Rightarrow> zone \<Rightarrow> error option \<times> zone" where
  "handle_vol float v z =
     (case float v of None \<Rightarrow> (Some ValueError, z) | Some f \<Rightarrow> (None, z\<lparr>volume := Some f\<rparr>))"

definition handle_maxvol :: "(string \<Rightarrow> rat option) \<Rightarrow> string \<Rightarrow> zone \<Rightarrow> error option \<times> zone" where
  "handle_maxvol float v z =
     (case float v of None \<Rightarrow> (Some ValueError, z) | Some f \<Rightarrow> (None, z\<lparr>max_volume := f\<rparr>))"

definition min_volume :: "zone \<Rightarrow> rat" where
  "min_volume z = - (161 / 2)"

text \<open>
  The setter of \<open>volume\<close>. The result is the exception raised, if any, the zone and the
  session as the call leaves them.
\<close>

definition set_volume :: "rat \<Rightarrow> zone \<Rightarrow> connection \<Rightarrow> error option \<times> zone \<times> connection" where
  "set_volume v z c =
     (if min_volume z \<le> v \<and> v \<le> max_volume z
      then (None, z, subunit_put ''VOL'' (number_to_string_with_stepsize v 1 (1 / 2)) z c)
      else (Some ValueError, z, c))"

definition volume_up :: "pynumber \<Rightarrow> zone \<Rightarrow> connection \<Rightarrow> connection" where
  "volume_up step_size z c =
     (let v = (if number_value step_size \<in> set [1, 2, 5]
               then ''Up '' @ format_number step_size @ '' dB'' else ''Up'')
      in subunit_put ''VOL'' v z c)"

definition volume_down :: "pynumber \<Rightarrow> zone \<Rightarrow> connection \<Rightarrow> connection" where
  "volume_down step_size z c =
     (let v = (if number_value step_size \<in> set [1, 2, 5]
               then ''Down '' @ format_number step_size @ '' dB'' else ''Down'')
      in subunit_put ''VOL'' v z c)"

text \<open>
  \<open>ZoneBase.vol_up\<close> and \<open>ZoneBase.vol_down\<close> of \<open>ynca/subunits/zone.py\<close>, on any
  subunit instance.
\<close>

definition vol_up :: "pynumber \<Rightarrow> 'a subunit_scheme \<Rightarrow> connection \<Rightarrow> connection" where
  "vol_up step_size s c =
     (let v = (if number_value step_size \<in> set [1, 2, 5]
               then ''Up '' @ format_number step_size @ '' dB'' else ''Up'')
      in subunit_put ''VOL'' v s c)"

definition vol_down :: "pynumber \<Rightarrow> 'a subunit_scheme \<Rightarrow> connection \<Rightarrow> connection" where
  "vol_down step_size s c =
     (let v = (if number_value step_size \<in> set [1, 2, 5]
               then ''Down '' @ format_number step_size @ '' dB'' else ''Down'')
      in subunit_put ''VOL'' v s c)"

section \<open>Function descriptors\<close>

text \<open>
  Modelled from the spec: \<open>subunit.py\<close> (\<open>CommandType\<close>, \<open>YncaFunctionStr\<close>,
  \<open>YncaFunctionEnum\<close>) and the converters are not among the sources. Section 3: a
  descriptor binds a function name to a converter, a command capability (GET only, or GET
  and PUT) and an optional initialization group; it stores no value itself. Section 4.1:
  the enum converter checks membership in the enum's value set strictly and fails with a
  conversion error otherwise; the string converter reads a string as it is.
\<close>

datatype CommandType = GET_ONLY | GET_AND_PUT

record converter =
  to_value :: "string \<Rightarrow> error + typed_value"
  to_str :: "typed_value \<Rightarrow> error + string"

record function_descriptor =
  fd_name :: string
  fd_converter :: converter
  fd_command_type :: CommandType
  fd_initialize_function_name :: "string option"

definition StrConverter :: converter where
  "StrConverter =
     \<lparr>to_value = (\<lambda>s. Inr (VStr s)),
      to_str = (\<lambda>v. case v of VStr s \<Rightarrow> Inr s | _ \<Rightarrow> Inl ConversionError)\<rparr>"

definition enum_member :: "'e list \<Rightarrow> ('e \<Rightarrow> string) \<Rightarrow> string \<Rightarrow> 'e option" where
  "enum_member members value_of s = find (\<lambda>m. value_of m = s) members"

definition RepeatConverter :: converter where
  "RepeatConverter =
     \<lparr>to_value = (\<lambda>s. case enum_member [Repeat_SINGLE, Repeat_ALL] Repeat_value s of
                         Some m \<Rightarrow> Inr (VRepeat m) | None \<Rightarrow> Inl ConversionError),
      to_str = (\<lambda>v. case v of VRepeat m \<Rightarrow> Inr (Repeat_value m) | _ \<Rightarrow> Inl ConversionError)\<rparr>"

definition ShuffleConverter :: converter where
  "ShuffleConverter =
     \<lparr>to_value = (\<lambda>s. case enum_member [Shuffle_ON, Shuffle_OFF] Shuffle_value s of
                         Some m \<Rightarrow> Inr (VShuffle m) | None \<Rightarrow> Inl ConversionError),
      to_str = (\<lambda>v. case v of VShuffle m \<Rightarrow> Inr (Shuffle_value m) | _ \<Rightarrow> Inl ConversionError)\<rparr>"

definition PlaybackInfoConverter :: converter where
  "PlaybackInfoConverter =
     \<lparr>to_value = (\<lambda>s. case enum_member [PlaybackInfo_PAUSE] PlaybackInfo_value s of
                         Some m \<Rightarrow> Inr (VPlaybackInfo m) | None \<Rightarrow> Inl ConversionError),
      to_str = (\<lambda>v. case v of VPlaybackInfo m \<Rightarrow> Inr (PlaybackInfo_value m)
                             | _ \<Rightarrow> Inl ConversionError)\<rparr>"

definition YncaFunctionStr :: "string \<Rightarrow> CommandType \<Rightarrow> string option \<Rightarrow> function_descriptor" where
  "YncaFunctionStr name command_type initialize_function_name =
     \<lparr>fd_name = name, fd_converter = StrConverter, fd_command_type = command_type,
      fd_initialize_function_name = initialize_function_name\<rparr>"

definition YncaFunctionEnum ::
  "string \<Rightarrow> converter \<Rightarrow> CommandType \<Rightarrow> string option \<Rightarrow> function_descriptor" where
  "YncaFunctionEnum name enum command_type initialize_function_name =
     \<lparr>fd_name = name, fd_converter = enum, fd_command_type = command_type,
      fd_initialize_function_name = initialize_function_name\<rparr>"

text \<open>
  The declarations of \<open>function_mixins.py\<close>. Where the source gives no
  \<open>command_type\<close> the default applies, which allows GET and PUT: the test assigns to
  \<open>repeat\<close> and \<open>shuffle\<close>.
\<close>

definition playbackinfo :: function_descriptor where
  "playbackinfo = YncaFunctionEnum ''PLAYBACKINFO'' PlaybackInfoConverter GET_ONLY None"

definition artist :: function_descriptor where
  "artist = YncaFunctionStr ''ARTIST'' GET_ONLY (Some ''METAINFO'')"

definition album :: function_descriptor where
  "album = YncaFunctionStr ''ALBUM'' GET_ONLY (Some ''METAINFO'')"

definition song :: function_descriptor where
  "song = YncaFunctionStr ''SONG'' GET_ONLY (Some ''METAINFO'')"

definition station :: function_descriptor where
  "station = YncaFunctionStr ''STATION'' GET_ONLY None"

definition repeat :: function_descriptor where
  "repeat = YncaFunctionEnum ''REPEAT'' RepeatConverter GET_AND_PUT None"

definition shuffle :: function_descriptor where
  "shuffle = YncaFunctionEnum ''SHUFFLE'' ShuffleConverter GET_AND_PUT None"

text \<open>\<open>PlaybackFunctionMixin.playback\<close>: the member is sent as its protocol string.\<close>

definition playback :: "Playback \<Rightarrow> 'a subunit_scheme \<Rightarrow> connection \<Rightarrow> connection" where
  "playback parameter s c = subunit_put ''PLAYBACK'' (Playback_value parameter) s c"

text \<open>
  Modelled from the spec: the accessors of a descriptor (section 4.2). The get accessor
  returns the cached typed value, or \<open>None\<close> if none was received. The set accessor
  fails with \<open>UnsupportedOperationError\<close> on a GET-only descriptor; otherwise it
  converts the value and issues a PUT through the session of the owning subunit. The
  cached value is not touched: it changes with the events of the device only.
\<close>

definition descriptor_get :: "function_descriptor \<Rightarrow> 'a subunit_scheme \<Rightarrow> typed_value option" where
  "descriptor_get d s = map_of (attrs s) (fd_name d)"

definition descriptor_set ::
  "function_descriptor \<Rightarrow> typed_value \<Rightarrow> 'a subunit_scheme \<Rightarrow> connection \<Rightarrow>
     error option \<times> 'a subunit_scheme \<times> connection" where
  "descriptor_set d v s c =
     (if fd_command_type d = GET_ONLY then (Some UnsupportedOperationError, s, c)
      else (case to_str (fd_converter d) v of
              Inl e \<Rightarrow> (Some e, s, c)
            | Inr parameter \<Rightarrow> (None, s, subunit_put (fd_name d) parameter s c)))"

text \<open>
  Modelled from the spec: the event dispatch of \<open>SubunitBase\<close> (section 4.3). An event
  for the subunit's own id is looked up in the descriptors by function name. If one is
  found, the value is decoded through its converter and stored, for status OK only, and
  the update callbacks are notified with \<open>(subunit_id, function_name, new_value)\<close>; other
  statuses are surfaced to the callbacks, which see the cached value. A value that does
  not convert is contained: nothing is stored. If no descriptor matches, the event is
  offered to the fallback handler of the subunit, which gets the status, the function
  name and the value; if that declines too, the event is dropped.
\<close>

definition notify :: "string \<Rightarrow> typed_value option \<Rightarrow> 'a subunit_scheme \<Rightarrow> 'a subunit_scheme" where
  "notify function_name new_value s =
     s\<lparr>notifications := notifications s @ [(su_id s, function_name, new_value)]\<rparr>"

definition subunit_message_received ::
  "function_descriptor list \<Rightarrow>
   (YncaProtocolStatus \<Rightarrow> string \<Rightarrow> string \<Rightarrow> 'a subunit_scheme \<Rightarrow> bool \<times> 'a subunit_scheme) \<Rightarrow>
   protocol_event \<Rightarrow> 'a subunit_scheme \<Rightarrow> 'a subunit_scheme" where
  "subunit_message_received descriptors without_handler ev s =
     (if ev_subunit ev \<noteq> su_id s then s
      else (case find (\<lambda>d. fd_name d = ev_function ev) descriptors of
              Some d \<Rightarrow>
                (if ev_status ev = OK
                 then (case to_value (fd_converter d) (ev_value ev) of
                         Inr v \<Rightarrow> notify (fd_name d) (Some v)
                                    (s\<lparr>attrs := AList.update (fd_name d) v (attrs s)\<rparr>)
                       | Inl e \<Rightarrow> s)
                 else notify (fd_name d) (map_of (attrs s) (fd_name d)) s)
            | None \<Rightarrow>
                (case without_handler (ev_status ev) (ev_function ev) (ev_value ev) s of
                   (updated, s') \<Rightarrow>
                     if updated then notify (ev_function ev) (Some (VStr (ev_value ev))) s'
                     else s')))"

text \<open>The fallback of a subunit that has none of its own declines every event.\<close>

definition no_handler ::
  "YncaProtocolStatus \<Rightarrow> string \<Rightarrow> string \<Rightarrow> 'a subunit_scheme \<Rightarrow> bool \<times> 'a subunit_scheme" where
  "no_handler status function_name v s = (False, s)"

text \<open>
  Modelled from the spec: \<open>mediaplayback_subunits.py\<close> (\<open>MediaPlaybackSubunitBase\<close>)
  is not among the sources. Its descriptors are those the test reads on it.
\<close>

definition MediaPlaybackSubunitBase_functions :: "function_descriptor list" where
  "MediaPlaybackSubunitBase_functions = [playbackinfo, artist, album, song, repeat, shuffle]"

definition mediaplayback_message_received :: "protocol_event \<Rightarrow> subunit \<Rightarrow> subunit" where
  "mediaplayback_message_received ev s =
     subunit_message_received MediaPlaybackSubunitBase_functions no_handler ev s"

text \<open>The replies of \<open>INITIALIZE_FULL_RESPONSES\<close> in the test, in their order.\<close>

definition ok_event :: "string \<Rightarrow> string \<Rightarrow> string \<Rightarrow> protocol_event" where
  "ok_event subunit_id function_name v =
     \<lparr>ev_status = OK, ev_subunit = subunit_id, ev_function = function_name, ev_value = v\<rparr>"

definition INITIALIZE_FULL_RESPONSES :: "protocol_event list" where
  "INITIALIZE_FULL_RESPONSES =
     [ok_event ''SUBUNIT'' ''ALBUM'' ''Album'',
      ok_event ''SUBUNIT'' ''ARTIST'' ''Artist'',
      ok_event ''SUBUNIT'' ''SONG'' ''Song'',
      ok_event ''SUBUNIT'' ''AVAIL'' ''Ready'',
      ok_event ''SUBUNIT'' ''PLAYBACKINFO'' ''Pause'',
      ok_event ''SUBUNIT'' ''REPEAT'' ''Single'',
      ok_event ''SUBUNIT'' ''SHUFFLE'' ''On'',
      ok_event ''SYS'' ''VERSION'' ''Version'']"

definition dmps :: subunit where
  "dmps = fold mediaplayback_message_received INITIALIZE_FULL_RESPONSES
            (SubunitBase_init ''SUBUNIT'')"

section \<open>Zone: scene names (\<open>ynca/zone.py\<close>)\<close>

text \<open>
  \<open>re.match(r"SCENE(\d+)NAME", function_)\<close> and its group 1. \<open>re.match\<close> anchors the
  pattern at the start of the string only, so any text may follow \<open>NAME\<close>. The digits are
  the longest run after \<open>SCENE\<close>: \<open>N\<close> is no digit, so no shorter run can be followed
  by \<open>NAME\<close>. Function names are ASCII, where \<open>\d\<close> is \<open>0\<close> to \<open>9\<close>.
\<close>

definition match_scene_name :: "string \<Rightarrow> string option" where
  "match_scene_name function_name =
     (if take 5 function_name = ''SCENE''
      then (let digits = takeWhile is_digit (drop 5 function_name);
                rest = dropWhile is_digit (drop 5 function_name)
            in if digits \<noteq> [] \<and> take 4 rest = ''NAME'' then Some digits else None)
      else None)"

definition subunit_message_received_without_handler ::
  "YncaProtocolStatus \<Rightarrow> string \<Rightarrow> string \<Rightarrow> zone \<Rightarrow> bool \<times> zone" where
  "subunit_message_received_without_handler status function_name v z =
     (case match_scene_name function_name of
        Some scene_id \<Rightarrow> (True, z\<lparr>scenes := AList.update scene_id v (scenes z)\<rparr>)
      | None \<Rightarrow> (False, z))"

text \<open>The dispatch of a zone with the descriptors \<open>descriptors\<close>.\<close>

definition zone_message_received ::
  "function_descriptor list \<Rightarrow> protocol_event \<Rightarrow> zone \<Rightarrow> zone" where
  "zone_message_received descriptors ev z =
     subunit_message_received descriptors subunit_message_received_without_handler ev z"

section \<open>Discovery: properties\<close>

lemma fold_connection_get:
  "fold (\<lambda>subunit_id c. connection_get subunit_id f c) xs c =
     c\<lparr>sent := sent c @ map (\<lambda>s. GET s f) xs,
       num_commands_sent := num_commands_sent c + int (length xs)\<rparr>"
  by (induction xs arbitrary: c) (simp_all add: connection_get_def)

lemma num_commands_sent_get [simp]:
  "num_commands_sent (connection_get subunit f c) = num_commands_sent c + 1"
  by (simp add: connection_get_def)

lemma map_of_fold_update:
  "map_of (fold (\<lambda>e. AList.update (f e) (g e)) es al) =
     map_of (rev (map (\<lambda>e. (f e, g e)) es) @ al)"
  by (induction es arbitrary: al)
    (simp_all add: update_conv' map_add_def fun_eq_iff split: option.splits)

text \<open>
  While only AVAIL events arrive in time, the wait goes on and each of them is recorded.
\<close>

lemma event_wait_avail:
  "\<not> initialized_event r \<Longrightarrow> \<forall>(t, e) \<in> set evs. ev_function e = ''AVAIL'' \<and> t \<le> T \<Longrightarrow>
   event_wait T (evs @ rest) r =
     event_wait T rest (r\<lparr>available_subunits := record_avail (map snd evs) (available_subunits r)\<rparr>)"
proof (induction evs arbitrary: r)
  case Nil
  then show ?case by (simp add: record_avail_def)
next
  case (Cons p evs)
  obtain t e where p: "p = (t, e)" by (cases p)
  from Cons.prems p have e: "ev_function e = ''AVAIL''" "t \<le> T" by auto
  let ?r = "protocol_message_received e r"
  have r': "?r = r\<lparr>available_subunits :=
      AList.update (ev_subunit e) (ev_status e = OK) (available_subunits r)\<rparr>"
    using e by (simp add: protocol_message_received_def)
  have "\<not> initialized_event ?r" using Cons.prems(1) by (simp add: r')
  moreover have "\<forall>(t, e) \<in> set evs. ev_function e = ''AVAIL'' \<and> t \<le> T"
    using Cons.prems(2) by simp
  ultimately have "event_wait T (evs @ rest) ?r =
     event_wait T rest (?r\<lparr>available_subunits := record_avail (map snd evs) (available_subunits ?r)\<rparr>)"
    by (rule Cons.IH)
  then show ?case using Cons.prems(1) e p by (simp add: r' record_avail_def)
qed

text \<open>The wait does not end by itself: without a SYS VERSION event in time the event stays clear.\<close>

lemma event_wait_no_version:
  "\<not> initialized_event r \<Longrightarrow>
   \<forall>(t, e) \<in> set incoming. ev_subunit e = SYS \<and> ev_function e = ''VERSION'' \<longrightarrow> T < t \<Longrightarrow>
   \<not> initialized_event (event_wait T incoming r)"
proof (induction T incoming r rule: event_wait.induct)
  case (1 timeout r)
  then show ?case by simp
next
  case (2 timeout arrival ev incoming r)
  show ?case
  proof (cases "timeout < arrival")
    case True
    then show ?thesis using "2.prems" by simp
  next
    case False
    then have "\<not> (ev_subunit ev = SYS \<and> ev_function ev = ''VERSION'')"
      using "2.prems"(2) by auto
    then have "\<not> initialized_event (protocol_message_received ev r)"
      using "2.prems"(1) by (auto simp add: protocol_message_received_def Let_def)
    moreover have "\<forall>(t, e) \<in> set incoming.
        ev_subunit e = SYS \<and> ev_function e = ''VERSION'' \<longrightarrow> timeout < t"
      using "2.prems"(2) by simp
    ultimately have "\<not> initialized_event (event_wait timeout incoming (protocol_message_received ev r))"
      using "2.IH" "2.prems"(1) False by blast
    then show ?thesis using "2.prems"(1) False by simp
  qed
qed

text \<open>
  The scan sends one GET per catalog entry and the end marker, so the timeout computed
  from the command counter is \<open>scan_timeout\<close> of the catalog's length.
\<close>

lemma detect_timeout_scan:
  "detect_timeout
     (connection_get SYS ''VERSION''
        (fold (\<lambda>subunit_id c. connection_get subunit_id ''AVAIL'' c) Subunit c))
     (num_commands_sent c) = scan_timeout (length Subunit)"
  by (simp add: detect_timeout_def scan_timeout_def fold_connection_get)

lemma rc_connection_event_wait [simp]:
  "rc_connection (event_wait T incoming r) = rc_connection r"
  by (induction T incoming r rule: event_wait.induct)
    (simp_all add: protocol_message_received_def Let_def)

lemma detect_available_subunits_wait:
  "detect_available_subunits Subunit incoming r =
     (let c = connection_get SYS ''VERSION''
                (fold (\<lambda>subunit_id c. connection_get subunit_id ''AVAIL'' c) Subunit
                   (register_message_callback ReceiverCallback (rc_connection r)));
          r6 = event_wait (scan_timeout (length Subunit)) incoming
                 (r\<lparr>initialized_event := False, available_subunits := [], rc_connection := c\<rparr>)
      in if \<not> initialized_event r6 then (Some YncaInitializationFailedException, r6)
         else (None, r6\<lparr>rc_connection := unregister_message_callback ReceiverCallback c\<rparr>))"
proof -
  define T where "T = scan_timeout (length Subunit)"
  have T: "detect_timeout
      (connection_get SYS ''VERSION''
        (fold (\<lambda>subunit_id c. connection_get subunit_id ''AVAIL'' c) Subunit
          (register_message_callback ReceiverCallback (rc_connection r))))
      (num_commands_sent (register_message_callback ReceiverCallback (rc_connection r))) = T"
    unfolding T_def by (rule detect_timeout_scan)
  show ?thesis
    unfolding detect_available_subunits_def Let_def T_def [symmetric]
    by (simp add: T)
qed

lemma available_set_record_avail:
  assumes "distinct (map ev_subunit es)"
  shows "{s. map_of (record_avail es []) s = Some True} =
         set (map ev_subunit (filter (\<lambda>e. ev_status e = OK) es))"
proof -
  let ?kv = "map (\<lambda>e. (ev_subunit e, ev_status e = OK)) es"
  have m: "map_of (record_avail es []) = map_of (rev ?kv)"
    by (simp add: record_avail_def map_of_fold_update)
  have dist: "distinct (map fst (rev ?kv))"
    using assms by (simp add: rev_map [symmetric] comp_def)
  have "\<And>s. map_of (rev ?kv) s = Some True \<longleftrightarrow> (s, True) \<in> set (rev ?kv)"
    using dist by simp
  then show ?thesis unfolding m by auto
qed

lemma keys_record_avail:
  "fst ` set (record_avail es al) = ev_subunit ` set es \<union> fst ` set al"
  unfolding record_avail_def
  by (induction es arbitrary: al) (auto simp add: dom_update)

lemma sent_get [simp]:
  "sent (connection_get subunit f c) = sent c @ [GET subunit f]"
  by (simp add: connection_get_def)

lemma fold_get_sent [simp]:
  "sent (fold (\<lambda>subunit_id c. connection_get subunit_id f c) xs c) =
     sent c @ map (\<lambda>s. GET s f) xs"
  by (simp add: fold_connection_get)

lemma fold_get_num [simp]:
  "num_commands_sent (fold (\<lambda>subunit_id c. connection_get subunit_id f c) xs c) =
     num_commands_sent c + int (length xs)"
  by (simp add: fold_connection_get)

lemma detect_commands_sent:
  "num_commands_sent (rc_connection (snd (detect_available_subunits Subunit incoming r))) -
     num_commands_sent (rc_connection r) = int (length Subunit) + 1"
  by (simp add: detect_available_subunits_wait Let_def
      register_message_callback_def unregister_message_callback_def)

lemma detect_sent:
  "sent (rc_connection (snd (detect_available_subunits Subunit incoming r))) =
     sent (rc_connection r) @ map (\<lambda>s. GET s ''AVAIL'') Subunit @ [GET SYS ''VERSION'']"
  by (simp add: detect_available_subunits_wait Let_def
      register_message_callback_def unregister_message_callback_def)

lemma detect_released:
  assumes "fst (detect_available_subunits Subunit incoming r) = None"
  shows "\<exists>(t, e) \<in> set incoming. ev_subunit e = SYS \<and> ev_function e = ''VERSION'' \<and>
           t \<le> scan_timeout (length Subunit)"
proof (rule ccontr)
  assume "\<not> ?thesis"
  then have "\<forall>(t, e) \<in> set incoming. ev_subunit e = SYS \<and> ev_function e = ''VERSION'' \<longrightarrow>
      scan_timeout (length Subunit) < t"
    by (auto simp add: not_le)
  then have "\<not> initialized_event (event_wait (scan_timeout (length Subunit)) incoming
      (r\<lparr>initialized_event := False, available_subunits := [], rc_connection :=
         connection_get SYS ''VERSION''
                (fold (\<lambda>subunit_id c. connection_get subunit_id ''AVAIL'' c) Subunit
                   (register_message_callback ReceiverCallback (rc_connection r)))\<rparr>))"
    by (intro event_wait_no_version) simp_all
  then show False using assms
    by (simp add: detect_available_subunits_wait Let_def)
qed

text \<open>
  Claim C1. When the session delivers, in time, AVAIL events for distinct subunit ids and
  then a VERSION event of the SYS subunit, discovery returns without error; the subunits
  recorded as available are exactly those whose AVAIL event had status OK, every id
  that had an AVAIL event is recorded, a single AVAIL event records \<open>status = OK\<close>
  whatever its status is, and a discovery that returns without error has seen a SYS
  VERSION event in time.
\<close>

theorem discovery_available_set:
  assumes evs: "\<forall>(t, e) \<in> set evs. ev_function e = ''AVAIL'' \<and> t \<le> scan_timeout (length Subunit)"
    and dist: "distinct (map ev_subunit (map snd evs))"
    and v: "ev_subunit v = SYS \<and> ev_function v = ''VERSION''"
    and tv: "tv \<le> scan_timeout (length Subunit)"
  shows "fst (detect_available_subunits Subunit (evs @ [(tv, v)]) r) = None
     \<and> {s. map_of (available_subunits
               (snd (detect_available_subunits Subunit (evs @ [(tv, v)]) r))) s = Some True}
         = set (map ev_subunit (filter (\<lambda>e. ev_status e = OK) (map snd evs)))
     \<and> fst ` set (available_subunits (snd (detect_available_subunits Subunit (evs @ [(tv, v)]) r)))
         = set (map ev_subunit (map snd evs))
     \<and> (ev_function e0 = ''AVAIL'' \<longrightarrow>
          map_of (available_subunits (protocol_message_received e0 r0)) (ev_subunit e0)
            = Some (ev_status e0 = OK))
     \<and> (fst (detect_available_subunits Subunit incoming r0) = None \<longrightarrow>
          (\<exists>(t, e) \<in> set incoming. ev_subunit e = SYS \<and> ev_function e = ''VERSION'' \<and>
             t \<le> scan_timeout (length Subunit)))"
proof -
  let ?c = "connection_get SYS ''VERSION''
                (fold (\<lambda>subunit_id c. connection_get subunit_id ''AVAIL'' c) Subunit
                   (register_message_callback ReceiverCallback (rc_connection r)))"
  let ?r5 = "r\<lparr>initialized_event := False, available_subunits := [], rc_connection := ?c\<rparr>"
  let ?T = "scan_timeout (length Subunit)"
  have "event_wait ?T (evs @ [(tv, v)]) ?r5 =
        event_wait ?T [(tv, v)]
          (?r5\<lparr>available_subunits := record_avail (map snd evs) (available_subunits ?r5)\<rparr>)"
    by (rule event_wait_avail) (simp, rule evs)
  also have "\<dots> = ?r5\<lparr>available_subunits := record_avail (map snd evs) [], initialized_event := True\<rparr>"
    using v tv by (simp add: protocol_message_received_def)
  finally have w: "event_wait ?T (evs @ [(tv, v)]) ?r5 =
      ?r5\<lparr>available_subunits := record_avail (map snd evs) [], initialized_event := True\<rparr>" .
  have d: "detect_available_subunits Subunit (evs @ [(tv, v)]) r =
      (None, ?r5\<lparr>available_subunits := record_avail (map snd evs) [], initialized_event := True,
                  rc_connection := unregister_message_callback ReceiverCallback ?c\<rparr>)"
    unfolding detect_available_subunits_wait Let_def w by simp
  note dist' = dist
  have 1: "fst (detect_available_subunits Subunit (evs @ [(tv, v)]) r) = None"
    by (simp add: d)
  have 2: "{s. map_of (available_subunits
               (snd (detect_available_subunits Subunit (evs @ [(tv, v)]) r))) s = Some True}
         = set (map ev_subunit (filter (\<lambda>e. ev_status e = OK) (map snd evs)))"
    unfolding d using available_set_record_avail [OF dist'] by simp
  have 3: "fst ` set (available_subunits (snd (detect_available_subunits Subunit (evs @ [(tv, v)]) r)))
         = set (map ev_subunit (map snd evs))"
    unfolding d by (simp add: keys_record_avail image_image)
  have 4: "ev_function e0 = ''AVAIL'' \<longrightarrow>
          map_of (available_subunits (protocol_message_received e0 r0)) (ev_subunit e0)
            = Some (ev_status e0 = OK)"
    by (simp add: protocol_message_received_def update_conv')
  have 5: "fst (detect_available_subunits Subunit incoming r0) = None \<longrightarrow>
          (\<exists>(t, e) \<in> set incoming. ev_subunit e = SYS \<and> ev_function e = ''VERSION'' \<and>
             t \<le> scan_timeout (length Subunit))"
    using detect_released by blast
  from 1 2 3 4 5 show ?thesis by blast
qed

theorem discovery_available_set_witness:
  "fst (detect_available_subunits example_catalog
          (example_avail_events @ [(4 / 10, example_version_event)])
          (Receiver_init new_connection)) = None
   \<and> {s. map_of (available_subunits (snd (detect_available_subunits example_catalog
          (example_avail_events @ [(4 / 10, example_version_event)])
          (Receiver_init new_connection)))) s = Some True} = {''MAIN'', ''TUN''}"
  using discovery_available_set [of example_avail_events example_catalog example_version_event
      "4 / 10" "Receiver_init new_connection"]
  by (simp add: example_avail_events_def example_catalog_def example_version_event_def
      scan_timeout_def SYS_def)

text \<open>
  Claim C2. When no SYS VERSION event arrives within the number of commands sent since
  the start of the scan times 0.120 seconds, discovery raises
  \<open>YncaInitializationFailedException\<close>, and it has sent each command of the scan once:
  there is no second attempt.
\<close>

theorem discovery_timeout_raises:
  assumes "\<forall>(t, e) \<in> set incoming. ev_subunit e = SYS \<and> ev_function e = ''VERSION'' \<longrightarrow>
      of_int (num_commands_sent (rc_connection (snd (detect_available_subunits Subunit incoming r)))
              - num_commands_sent (rc_connection r)) * (120 / 1000) < t"
  shows "fst (detect_available_subunits Subunit incoming r) = Some YncaInitializationFailedException
     \<and> sent (rc_connection (snd (detect_available_subunits Subunit incoming r))) =
         sent (rc_connection r) @ map (\<lambda>s. GET s ''AVAIL'') Subunit @ [GET SYS ''VERSION'']"
proof -
  have T: "of_int (num_commands_sent (rc_connection (snd (detect_available_subunits Subunit incoming r)))
              - num_commands_sent (rc_connection r)) * (120 / 1000) = scan_timeout (length Subunit)"
    unfolding detect_commands_sent by (simp add: scan_timeout_def)
  have "\<not> initialized_event (event_wait (scan_timeout (length Subunit)) incoming
      (r\<lparr>initialized_event := False, available_subunits := [], rc_connection :=
         connection_get SYS ''VERSION''
                (fold (\<lambda>subunit_id c. connection_get subunit_id ''AVAIL'' c) Subunit
                   (register_message_callback ReceiverCallback (rc_connection r)))\<rparr>))"
    by (rule event_wait_no_version) (simp, rule assms [unfolded T])
  then have "fst (detect_available_subunits Subunit incoming r) = Some YncaInitializationFailedException"
    by (simp add: detect_available_subunits_wait Let_def)
  then show ?thesis by (simp add: detect_sent)
qed

theorem discovery_timeout_raises_witness:
  "fst (detect_available_subunits example_catalog
          (example_avail_events @ [(7 / 10, example_version_event)])
          (Receiver_init new_connection)) = Some YncaInitializationFailedException
   \<and> sent (rc_connection (snd (detect_available_subunits example_catalog
          (example_avail_events @ [(7 / 10, example_version_event)])
          (Receiver_init new_connection)))) =
       [GET ''SYS'' ''AVAIL'', GET ''MAIN'' ''AVAIL'', GET ''ZONE2'' ''AVAIL'', GET ''TUN'' ''AVAIL'',
        GET ''SYS'' ''VERSION'']"
  using discovery_timeout_raises [of "example_avail_events @ [(7 / 10, example_version_event)]"
      example_catalog "Receiver_init new_connection"]
  by (simp add: detect_commands_sent)
    (simp add: example_avail_events_def example_catalog_def example_version_event_def
      SYS_def Receiver_init_def new_connection_def)

section \<open>Initialization of the available subunits: properties\<close>

lemma su_id_Zone_init [simp]: "su_id (Zone_init subunit_id) = subunit_id"
  by (simp add: Zone_init_def reset_internal_state_def SubunitBase_init_def
      subunit.extend_def zone.fields_def)

lemma reset_internal_state_Zone_init:
  "reset_internal_state ((Zone_init subunit_id)\<lparr>su_state := INITIALIZING\<rparr>) =
     (Zone_init subunit_id)\<lparr>su_state := INITIALIZING\<rparr>"
  by (simp add: Zone_init_def reset_internal_state_def SubunitBase_init_def
      subunit.extend_def zone.fields_def)

lemma zone_initialize_Zone_init:
  "zone_initialize (Zone_init subunit_id) c =
     ((Zone_init subunit_id)\<lparr>su_state := INITIALIZING\<rparr>,
      c\<lparr>sent := sent c @ zone_polls subunit_id,
        num_commands_sent := num_commands_sent c + 4\<rparr>)"
  by (simp add: zone_initialize_def on_initialize_def Let_def reset_internal_state_Zone_init
      subunit_get_def connection_get_def zone_polls_def)

lemma initialize_subunit_simp:
  "initialize_subunit ZONES (subunit_id, available) r =
     (if available \<and> subunit_id \<in> set ZONES
      then r\<lparr>rc_connection := (rc_connection r)\<lparr>sent := sent (rc_connection r) @ zone_polls subunit_id,
                 num_commands_sent := num_commands_sent (rc_connection r) + 4\<rparr>,
              subunits := AList.update subunit_id
                 (ZoneInstance ((Zone_init subunit_id)\<lparr>su_state := INITIALIZING\<rparr>)) (subunits r)\<rparr>
      else r)"
  by (simp add: initialize_subunit_def zone_initialize_Zone_init)

lemma fold_initialize_subunit_subunits:
  "map_of (subunits (fold (initialize_subunit ZONES) al r)) subunit_id =
     (if (subunit_id, True) \<in> set al \<and> subunit_id \<in> set ZONES
      then Some (ZoneInstance ((Zone_init subunit_id)\<lparr>su_state := INITIALIZING\<rparr>))
      else map_of (subunits r) subunit_id)"
proof (induction al arbitrary: r)
  case Nil
  then show ?case by simp
next
  case (Cons entry al)
  obtain k a where entry: "entry = (k, a)" by (cases entry)
  show ?case
    unfolding entry by (auto simp add: Cons.IH initialize_subunit_simp update_conv')
qed

lemma fold_initialize_subunit_sent:
  "sent (rc_connection (fold (initialize_subunit ZONES) al r)) =
     sent (rc_connection r) @
     concat (map (\<lambda>(subunit_id, available).
        if available \<and> subunit_id \<in> set ZONES then zone_polls subunit_id else []) al)"
proof (induction al arbitrary: r)
  case Nil
  then show ?case by simp
next
  case (Cons entry al)
  obtain k a where entry: "entry = (k, a)" by (cases entry)
  show ?case
    unfolding entry by (simp add: Cons.IH initialize_subunit_simp)
qed

text \<open>
  Claim C3, as amended. After \<open>_initialize_available_subunits\<close> the subunits mapping
  holds, for every id recorded as available that is one of \<open>ZONES\<close>, a zone instance of
  that id on which \<open>initialize\<close> has been called; for the id \<open>SYS\<close> (unless it is such
  a zone id) the system instance, initialized whatever was recorded; and for every other
  id what it held before. The commands sent are those of the zones' \<open>initialize\<close>, in
  the order of the availability dictionary.
\<close>

theorem initialize_available_subunits_entries:
  "map_of (subunits (initialize_available_subunits ZONES r)) subunit_id =
     (if (subunit_id, True) \<in> set (available_subunits r) \<and> subunit_id \<in> set ZONES
      then Some (ZoneInstance ((Zone_init subunit_id)\<lparr>su_state := INITIALIZING\<rparr>))
      else if subunit_id = SYS
      then Some (SystemInstance (System_init\<lparr>su_state := INITIALIZING\<rparr>))
      else map_of (subunits r) subunit_id)
   \<and> sent (rc_connection (initialize_available_subunits ZONES r)) =
       sent (rc_connection r) @
       concat (map (\<lambda>(subunit_id, available).
          if available \<and> subunit_id \<in> set ZONES then zone_polls subunit_id else [])
        (available_subunits r))"
  by (simp add: initialize_available_subunits_def system_initialize_def
      fold_initialize_subunit_subunits fold_initialize_subunit_sent update_conv'
      System_init_def SubunitBase_init_def)

lemma discovered_example_available:
  "available_subunits discovered_example = [(''MAIN'', True), (''ZONE2'', False), (''TUN'', True)]"
  by (simp add: discovered_example_def detect_available_subunits_wait Let_def
      example_avail_events_def example_catalog_def example_version_event_def
      scan_timeout_def SYS_def Receiver_init_def protocol_message_received_def)

text \<open>
  Claim C3 as stated fails: in the example the discovery succeeds and records the tuner
  \<open>TUN\<close> as available, and the subunits mapping has no entry for it after the
  initialization, since \<open>TUN\<close> is not one of the zones.
\<close>

theorem available_without_instance:
  "fst (detect_available_subunits example_catalog
            (example_avail_events @ [(4 / 10, example_version_event)])
            (Receiver_init new_connection)) = None
   \<and> map_of (available_subunits discovered_example) ''TUN'' = Some True
   \<and> map_of (subunits (initialize_available_subunits example_zones discovered_example)) ''TUN'' = None"
proof -
  have "subunits discovered_example = []"
    by (simp add: discovered_example_def detect_available_subunits_wait Let_def
      example_avail_events_def example_catalog_def example_version_event_def
      scan_timeout_def SYS_def Receiver_init_def protocol_message_received_def)
  then have "map_of (subunits (initialize_available_subunits example_zones discovered_example)) ''TUN'' = None"
    by (simp add: initialize_available_subunits_def system_initialize_def
      fold_initialize_subunit_subunits update_conv' System_init_def SubunitBase_init_def
      example_zones_def SYS_def)
  moreover have "fst (detect_available_subunits example_catalog
            (example_avail_events @ [(4 / 10, example_version_event)])
            (Receiver_init new_connection)) = None"
    by (simp add: detect_available_subunits_wait Let_def
      example_avail_events_def example_catalog_def example_version_event_def
      scan_timeout_def SYS_def Receiver_init_def protocol_message_received_def)
  ultimately show ?thesis by (simp add: discovered_example_available)
qed

theorem initialize_available_subunits_entries_witness:
  "map_of (subunits (initialize_available_subunits example_zones discovered_example)) ''MAIN'' =
     Some (ZoneInstance ((Zone_init ''MAIN'')\<lparr>su_state := INITIALIZING\<rparr>))
   \<and> map_of (subunits (initialize_available_subunits example_zones discovered_example)) ''SYS'' =
     Some (SystemInstance (System_init\<lparr>su_state := INITIALIZING\<rparr>))
   \<and> map_of (subunits (initialize_available_subunits example_zones discovered_example)) ''ZONE2'' = None"
  using initialize_available_subunits_entries [of example_zones discovered_example "''MAIN''"]
    initialize_available_subunits_entries [of example_zones discovered_example "''SYS''"]
    initialize_available_subunits_entries [of example_zones discovered_example "''ZONE2''"]
  by (simp add: discovered_example_available example_zones_def SYS_def)
    (simp add: discovered_example_def detect_available_subunits_wait Let_def
      example_avail_events_def example_catalog_def example_version_event_def
      scan_timeout_def SYS_def Receiver_init_def protocol_message_received_def)

section \<open>Zone volume: properties\<close>

lemma digit_char_digit: "n < 10 \<Longrightarrow> digit_char n \<in> set ''0123456789''"
  unfolding digit_char_def by (rule nth_mem) simp

lemma string_of_nat_digits: "set (string_of_nat n) \<subseteq> set ''0123456789''"
proof (induction n rule: string_of_nat.induct)
  case (1 n)
  show ?case
  proof (cases "n < 10")
    case True
    then show ?thesis
      using digit_char_digit [of n] by (subst string_of_nat.simps) simp
  next
    case False
    have "n mod 10 < 10" by simp
    then have "digit_char (n mod 10) \<in> set ''0123456789''" by (rule digit_char_digit)
    then show ?thesis
      using False "1.IH" by (subst string_of_nat.simps) simp
  qed
qed

lemma no_point_string_of_nat: "CHR ''.'' \<notin> set (string_of_nat n)"
  using string_of_nat_digits [of n] by auto

lemma no_point_string_of_int: "CHR ''.'' \<notin> set (string_of_int i)"
  by (simp add: string_of_int_def no_point_string_of_nat)

lemma string_of_nat_0: "string_of_nat 0 = ''0''"
  by (subst string_of_nat.simps) (simp add: digit_char_def)

lemma string_of_nat_5: "string_of_nat 5 = ''5''"
  by (subst string_of_nat.simps) (simp add: digit_char_def)

lemma render_minimal_scaled:
  assumes "round (r * 10 ^ decimals) = scaled"
  shows "render_minimal r decimals =
     (if scaled < 0 then ''-'' else []) @ string_of_nat (nat \<bar>scaled\<bar> div 10 ^ decimals) @
     (if strip_trailing_zeros (pad_zeros decimals (string_of_nat (nat \<bar>scaled\<bar> mod 10 ^ decimals))) = []
      then []
      else CHR ''.'' # strip_trailing_zeros
             (pad_zeros decimals (string_of_nat (nat \<bar>scaled\<bar> mod 10 ^ decimals))))"
  unfolding render_minimal_def Let_def assms ..

lemma render_minimal_half:
  "render_minimal (of_int k * (1 / 2)) 1 =
     (if even k then string_of_int (k div 2)
      else (if k < 0 then ''-'' else []) @ string_of_nat (nat \<bar>k\<bar> div 2) @ ''.5'')"
proof -
  have "(of_int k * (1 / 2) * 10 ^ 1 :: rat) = of_int (5 * k)" by simp
  then have scaled: "round (of_int k * (1 / 2) * 10 ^ 1 :: rat) = 5 * k"
    by (simp only: round_of_int)
  define a where "a = nat \<bar>k\<bar>"
  have a5: "nat \<bar>5 * k\<bar> = 5 * a" by (simp add: a_def abs_mult nat_mult_distrib)
  have neg: "5 * k < 0 \<longleftrightarrow> k < 0" by simp
  have p: "(10::nat) ^ 1 = 10" by simp
  note r = render_minimal_scaled [OF scaled, unfolded a5 neg p]
  show ?thesis
  proof (cases "even k")
    case True
    then have ev: "even a" by (simp add: a_def)
    then have d: "(5 * a) div 10 = a div 2" and m: "(5 * a) mod 10 = 0" by presburger+
    have a2: "a div 2 = (if k < 0 then nat (- (k div 2)) else nat (k div 2))"
      using True unfolding a_def by (auto elim!: evenE simp add: abs_mult nat_mult_distrib)
    have k2: "k div 2 < 0 \<longleftrightarrow> k < 0" by auto
    have z: "strip_trailing_zeros (pad_zeros 1 ''0'') = []"
      by (simp add: pad_zeros_def strip_trailing_zeros_def)
    show ?thesis
      unfolding r d m string_of_nat_0 z using True
      by (simp add: string_of_int_def a2 k2)
  next
    case False
    then have od: "odd a" by (simp add: a_def)
    then have d: "(5 * a) div 10 = a div 2" and m: "(5 * a) mod 10 = 5" by presburger+
    have z: "strip_trailing_zeros (pad_zeros 1 ''5'') = ''5''"
      by (simp add: pad_zeros_def strip_trailing_zeros_def)
    show ?thesis
      unfolding r d m string_of_nat_5 z using False
      by (simp add: a_def)
  qed
qed

lemma number_to_string_half:
  "number_to_string_with_stepsize v 1 (1 / 2) =
     (if even (round (2 * v)) then string_of_int (round (2 * v) div 2)
      else (if round (2 * v) < 0 then ''-'' else []) @
           string_of_nat (nat \<bar>round (2 * v)\<bar> div 2) @ ''.5'')"
proof -
  have "v / (1 / 2) = 2 * v" by simp
  then show ?thesis
    unfolding number_to_string_with_stepsize_def Let_def
    by (simp only: render_minimal_half)
qed

lemma nearest_half: "\<bar>v - of_int (round (2 * v)) / 2\<bar> \<le> (1 / 4 :: rat)"
proof -
  define x :: rat where "x = of_int (round (2 * v))"
  have "\<bar>x - 2 * v\<bar> \<le> 1 / 2"
    unfolding x_def by (rule of_int_round_abs_le)
  then have "\<bar>v - x / 2\<bar> \<le> 1 / 4"
    by linarith
  then show ?thesis
    unfolding x_def .
qed

lemma max_volume_Zone_init [simp]: "max_volume (Zone_init subunit_id) = 33 / 2"
  by (simp add: Zone_init_def reset_internal_state_def)

lemma sent_put [simp]:
  "sent (connection_put subunit f p c) = sent c @ [PUT subunit f p]"
  by (simp add: connection_put_def)

text \<open>
  Claim C7. For a value within the range of the zone, the volume setter sends one PUT of
  \<open>VOL\<close> whose value is the multiple of 0.5 nearest to the given value (at most 0.25
  away from it): the digits of the whole number, with no decimal point, when that
  multiple is whole, and the digits of its integral part followed by \<open>.5\<close> otherwise.
\<close>

theorem volume_put_rounded_to_half:
  assumes "min_volume z \<le> v" and "v \<le> max_volume z"
  shows "set_volume v z c =
           (None, z, connection_put (su_id z) ''VOL'' (number_to_string_with_stepsize v 1 (1 / 2)) c)
     \<and> number_to_string_with_stepsize v 1 (1 / 2) =
         (if even (round (2 * v)) then string_of_int (round (2 * v) div 2)
          else (if round (2 * v) < 0 then ''-'' else []) @
               string_of_nat (nat \<bar>round (2 * v)\<bar> div 2) @ ''.5'')
     \<and> \<bar>v - of_int (round (2 * v)) / 2\<bar> \<le> 1 / 4
     \<and> CHR ''.'' \<notin> set (string_of_int (round (2 * v) div 2))"
proof (intro conjI)
  show "set_volume v z c =
      (None, z, connection_put (su_id z) ''VOL'' (number_to_string_with_stepsize v 1 (1 / 2)) c)"
    using assms by (simp add: set_volume_def subunit_put_def)
  show "number_to_string_with_stepsize v 1 (1 / 2) =
         (if even (round (2 * v)) then string_of_int (round (2 * v) div 2)
          else (if round (2 * v) < 0 then ''-'' else []) @
               string_of_nat (nat \<bar>round (2 * v)\<bar> div 2) @ ''.5'')"
    by (rule number_to_string_half)
  show "\<bar>v - of_int (round (2 * v)) / 2\<bar> \<le> 1 / 4"
    by (rule nearest_half)
  show "CHR ''.'' \<notin> set (string_of_int (round (2 * v) div 2))"
    by (rule no_point_string_of_int)
qed

theorem volume_put_rounded_to_half_witness:
  "set_volume (3 / 10) (Zone_init ''MAIN'') new_connection =
     (None, Zone_init ''MAIN'', connection_put ''MAIN'' ''VOL'' ''0.5'' new_connection)
   \<and> set_volume (- 30) (Zone_init ''MAIN'') new_connection =
     (None, Zone_init ''MAIN'', connection_put ''MAIN'' ''VOL'' ''-30'' new_connection)"
proof -
  have a: "number_to_string_with_stepsize (3 / 10) 1 (1 / 2) = ''0.5''" by code_simp
  have b: "number_to_string_with_stepsize (- 30) 1 (1 / 2) = ''-30''" by code_simp
  have h: "min_volume (Zone_init ''MAIN'') \<le> 3 / 10" "3 / 10 \<le> max_volume (Zone_init ''MAIN'')"
    "min_volume (Zone_init ''MAIN'') \<le> - 30" "- 30 \<le> max_volume (Zone_init ''MAIN'')"
    by (simp_all add: min_volume_def)
  have "set_volume (3 / 10) (Zone_init ''MAIN'') new_connection =
     (None, Zone_init ''MAIN'', connection_put ''MAIN'' ''VOL'' ''0.5'' new_connection)"
    using volume_put_rounded_to_half [OF h(1,2), of new_connection]
    by (simp only: a su_id_Zone_init)
  moreover have "set_volume (- 30) (Zone_init ''MAIN'') new_connection =
     (None, Zone_init ''MAIN'', connection_put ''MAIN'' ''VOL'' ''-30'' new_connection)"
    using volume_put_rounded_to_half [OF h(3,4), of new_connection]
    by (simp only: b su_id_Zone_init)
  ultimately show ?thesis by (rule conjI)
qed

text \<open>
  Claim C9. The minimum volume is -80.5, the maximum is 16.5 from construction and after
  every reset, and becomes the number of a MAXVOL value once \<open>_handle_maxvol\<close> has seen
  it. The volume setter sends a PUT of \<open>VOL\<close> exactly when the value lies between the
  two; otherwise it raises \<open>ValueError\<close>, with the zone and the session as they were.
\<close>

theorem volume_setter_range:
  "min_volume z = - (161 / 2)
   \<and> max_volume (Zone_init subunit_id) = 33 / 2
   \<and> max_volume (reset_internal_state z) = 33 / 2
   \<and> (float text = Some m \<longrightarrow> handle_maxvol float text z = (None, z\<lparr>max_volume := m\<rparr>))
   \<and> ((\<exists>p. sent (snd (snd (set_volume v z c))) = sent c @ [PUT (su_id z) ''VOL'' p])
        \<longleftrightarrow> min_volume z \<le> v \<and> v \<le> max_volume z)
   \<and> (min_volume z \<le> v \<and> v \<le> max_volume z \<longrightarrow>
        set_volume v z c =
          (None, z, connection_put (su_id z) ''VOL'' (number_to_string_with_stepsize v 1 (1 / 2)) c))
   \<and> (\<not> (min_volume z \<le> v \<and> v \<le> max_volume z) \<longrightarrow>
        set_volume v z c = (Some ValueError, z, c))"
  by (simp add: min_volume_def reset_internal_state_def handle_maxvol_def set_volume_def
      subunit_put_def)

theorem volume_setter_range_witness:
  "set_volume 17 (Zone_init ''MAIN'') new_connection =
     (Some ValueError, Zone_init ''MAIN'', new_connection)
   \<and> set_volume (- 81) (Zone_init ''MAIN'') new_connection =
     (Some ValueError, Zone_init ''MAIN'', new_connection)
   \<and> handle_maxvol float_of_decimal ''20.0'' (Zone_init ''MAIN'') =
     (None, (Zone_init ''MAIN'')\<lparr>max_volume := 20\<rparr>)
   \<and> set_volume 17 ((Zone_init ''MAIN'')\<lparr>max_volume := 20\<rparr>) new_connection =
     (None, (Zone_init ''MAIN'')\<lparr>max_volume := 20\<rparr>,
      connection_put ''MAIN'' ''VOL'' ''17'' new_connection)"
proof -
  have f: "float_of_decimal ''20.0'' = Some 20" by code_simp
  have s: "number_to_string_with_stepsize 17 (Suc 0) (1 / 2) = ''17''" by code_simp
  show ?thesis
    using volume_setter_range [of "Zone_init ''MAIN''" "''MAIN''" float_of_decimal "''20.0''" 20
        17 new_connection]
      volume_setter_range [of "Zone_init ''MAIN''" "''MAIN''" float_of_decimal "''20.0''" 20
        "- 81" new_connection]
      volume_setter_range [of "(Zone_init ''MAIN'')\<lparr>max_volume := 20\<rparr>" "''MAIN''"
        float_of_decimal "''20.0''" 20 17 new_connection]
    by (simp add: f s min_volume_def)
qed

lemma format_small:
  "string_of_int 1 = ''1''" "string_of_int 2 = ''2''" "string_of_int 5 = ''5''"
  "string_of_int 3 = ''3''"
  by code_simp+

lemma number_value_in_steps:
  "number_value step_size \<in> set [1, 2, 5] \<longleftrightarrow>
     number_value step_size = 1 \<or> number_value step_size = 2 \<or> number_value step_size = 5"
  by simp

text \<open>
  Claim C10. \<open>volume_up\<close> sends the PUT value \<open>Up {step_size} dB\<close> exactly when the
  step size equals 1, 2 or 5, and the plain \<open>Up\<close> for every other step size, such as
  the default 0.5 and the unsupported 3; \<open>volume_down\<close> does the same with \<open>Down\<close>,
  and so do \<open>vol_up\<close> and \<open>vol_down\<close> of \<open>ZoneBase\<close>.
\<close>

theorem volume_up_down_values:
  "sent (volume_up step_size z c) = sent c @ [PUT (su_id z) ''VOL''
      (if number_value step_size = 1 \<or> number_value step_size = 2 \<or> number_value step_size = 5
       then ''Up '' @ format_number step_size @ '' dB'' else ''Up'')]
   \<and> sent (volume_down step_size z c) = sent c @ [PUT (su_id z) ''VOL''
      (if number_value step_size = 1 \<or> number_value step_size = 2 \<or> number_value step_size = 5
       then ''Down '' @ format_number step_size @ '' dB'' else ''Down'')]
   \<and> sent (vol_up step_size s c) = sent c @ [PUT (su_id s) ''VOL''
      (if number_value step_size = 1 \<or> number_value step_size = 2 \<or> number_value step_size = 5
       then ''Up '' @ format_number step_size @ '' dB'' else ''Up'')]
   \<and> sent (vol_down step_size s c) = sent c @ [PUT (su_id s) ''VOL''
      (if number_value step_size = 1 \<or> number_value step_size = 2 \<or> number_value step_size = 5
       then ''Down '' @ format_number step_size @ '' dB'' else ''Down'')]
   \<and> sent (volume_up (PyInt 1) z c) = sent c @ [PUT (su_id z) ''VOL'' ''Up 1 dB'']
   \<and> sent (volume_up (PyInt 2) z c) = sent c @ [PUT (su_id z) ''VOL'' ''Up 2 dB'']
   \<and> sent (volume_up (PyInt 5) z c) = sent c @ [PUT (su_id z) ''VOL'' ''Up 5 dB'']
   \<and> sent (volume_up (PyFloat (1 / 2)) z c) = sent c @ [PUT (su_id z) ''VOL'' ''Up'']
   \<and> sent (volume_up (PyInt 3) z c) = sent c @ [PUT (su_id z) ''VOL'' ''Up'']
   \<and> sent (volume_down (PyInt 1) z c) = sent c @ [PUT (su_id z) ''VOL'' ''Down 1 dB'']
   \<and> sent (volume_down (PyInt 2) z c) = sent c @ [PUT (su_id z) ''VOL'' ''Down 2 dB'']
   \<and> sent (volume_down (PyInt 5) z c) = sent c @ [PUT (su_id z) ''VOL'' ''Down 5 dB'']
   \<and> sent (volume_down (PyFloat (1 / 2)) z c) = sent c @ [PUT (su_id z) ''VOL'' ''Down'']
   \<and> sent (volume_down (PyInt 3) z c) = sent c @ [PUT (su_id z) ''VOL'' ''Down'']"
  by (simp add: volume_up_def volume_down_def vol_up_def vol_down_def subunit_put_def
      format_small)

theorem volume_up_down_values_witness:
  "sent (volume_up (PyFloat 2) (Zone_init ''MAIN'') new_connection) =
     [PUT ''MAIN'' ''VOL'' ''Up 2.0 dB'']
   \<and> sent (volume_down (PyInt 4) (Zone_init ''MAIN'') new_connection) =
     [PUT ''MAIN'' ''VOL'' ''Down'']"
  using volume_up_down_values [of "PyFloat 2" "Zone_init ''MAIN''" new_connection, THEN conjunct1]
    volume_up_down_values [of "PyInt 4" "Zone_init ''MAIN''" new_connection,
      THEN conjunct2, THEN conjunct1]
  by (simp add: format_small new_connection_def)

section \<open>Event dispatch and descriptors: properties\<close>


lemma is_digit_N [simp]: "\<not> is_digit CHR ''N''"
  by (simp add: is_digit_def)

lemma match_scene_name_iff:
  "match_scene_name f = Some ds \<longleftrightarrow>
     ds \<noteq> [] \<and> list_all is_digit ds \<and> (\<exists>rest. f = ''SCENE'' @ ds @ ''NAME'' @ rest)"
proof
  assume m: "match_scene_name f = Some ds"
  then have s: "take 5 f = ''SCENE''"
    by (simp add: match_scene_name_def split: if_splits)
  from m s have ds: "ds = takeWhile is_digit (drop 5 f)" "ds \<noteq> []"
    and n: "take 4 (dropWhile is_digit (drop 5 f)) = ''NAME''"
    by (auto simp add: match_scene_name_def Let_def split: if_splits)
  have "f = take 5 f @ drop 5 f" by simp
  also have "drop 5 f = ds @ dropWhile is_digit (drop 5 f)"
    unfolding ds by simp
  also have "dropWhile is_digit (drop 5 f) =
      take 4 (dropWhile is_digit (drop 5 f)) @ drop 4 (dropWhile is_digit (drop 5 f))"
    by simp
  finally have "f = ''SCENE'' @ ds @ ''NAME'' @ drop 4 (dropWhile is_digit (drop 5 f))"
    unfolding s n .
  moreover have "list_all is_digit ds"
    unfolding ds by (auto simp add: list_all_iff dest: set_takeWhileD)
  ultimately show "ds \<noteq> [] \<and> list_all is_digit ds \<and> (\<exists>rest. f = ''SCENE'' @ ds @ ''NAME'' @ rest)"
    using ds(2) by blast
next
  assume "ds \<noteq> [] \<and> list_all is_digit ds \<and> (\<exists>rest. f = ''SCENE'' @ ds @ ''NAME'' @ rest)"
  then obtain rest where ds: "ds \<noteq> []" "\<And>x. x \<in> set ds \<Longrightarrow> is_digit x"
    and f: "f = ''SCENE'' @ ds @ ''NAME'' @ rest"
    by (auto simp add: list_all_iff)
  have 1: "take 5 f = ''SCENE''" and 2: "drop 5 f = ds @ ''NAME'' @ rest"
    unfolding f by simp_all
  have t: "takeWhile is_digit (drop 5 f) = ds"
    unfolding 2 using ds(2) by (simp add: takeWhile_append2)
  have d: "dropWhile is_digit (drop 5 f) = ''NAME'' @ rest"
    unfolding 2 using ds(2) by (simp add: dropWhile_append2)
  show "match_scene_name f = Some ds"
    unfolding match_scene_name_def Let_def 1 t d using ds(1) by simp
qed

text \<open>
  Claim C8. An event for the zone's own id whose function name has no descriptor goes to
  the fallback handler. When \<open>re.match\<close> finds \<open>SCENE\<close>, digits and \<open>NAME\<close> at the
  start of the function name, which is the case exactly for the names of the form
  \<open>SCENE\<close> digits \<open>NAME\<close> followed by any text, the handler stores the value in the
  scenes dictionary under the digits and reports the event as handled, and the update
  callbacks are notified. For every other function name the handler declines and the
  zone stays as it was: the event is dropped and nothing is raised.
\<close>

theorem zone_fallback_scene_names:
  assumes own: "ev_subunit ev = su_id z"
    and unmatched: "find (\<lambda>d. fd_name d = ev_function ev) descriptors = None"
  shows "zone_message_received descriptors ev z =
           (case match_scene_name (ev_function ev) of
              Some scene_id \<Rightarrow>
                notify (ev_function ev) (Some (VStr (ev_value ev)))
                  (z\<lparr>scenes := AList.update scene_id (ev_value ev) (scenes z)\<rparr>)
            | None \<Rightarrow> z)
     \<and> subunit_message_received_without_handler (ev_status ev) (ev_function ev) (ev_value ev) z =
           (case match_scene_name (ev_function ev) of
              Some scene_id \<Rightarrow> (True, z\<lparr>scenes := AList.update scene_id (ev_value ev) (scenes z)\<rparr>)
            | None \<Rightarrow> (False, z))
     \<and> (match_scene_name (ev_function ev) = Some ds \<longleftrightarrow>
          ds \<noteq> [] \<and> list_all is_digit ds \<and>
          (\<exists>rest. ev_function ev = ''SCENE'' @ ds @ ''NAME'' @ rest))
     \<and> (match_scene_name (ev_function ev) = Some ds \<longrightarrow>
          map_of (scenes (zone_message_received descriptors ev z)) ds = Some (ev_value ev))"
proof (intro conjI)
  show 1: "zone_message_received descriptors ev z =
           (case match_scene_name (ev_function ev) of
              Some scene_id \<Rightarrow>
                notify (ev_function ev) (Some (VStr (ev_value ev)))
                  (z\<lparr>scenes := AList.update scene_id (ev_value ev) (scenes z)\<rparr>)
            | None \<Rightarrow> z)"
    using own unmatched
    by (simp add: zone_message_received_def subunit_message_received_def
        subunit_message_received_without_handler_def split: option.splits)
  show "subunit_message_received_without_handler (ev_status ev) (ev_function ev) (ev_value ev) z =
           (case match_scene_name (ev_function ev) of
              Some scene_id \<Rightarrow> (True, z\<lparr>scenes := AList.update scene_id (ev_value ev) (scenes z)\<rparr>)
            | None \<Rightarrow> (False, z))"
    by (simp add: subunit_message_received_without_handler_def)
  show "match_scene_name (ev_function ev) = Some ds \<longleftrightarrow>
          ds \<noteq> [] \<and> list_all is_digit ds \<and>
          (\<exists>rest. ev_function ev = ''SCENE'' @ ds @ ''NAME'' @ rest)"
    by (rule match_scene_name_iff)
  show "match_scene_name (ev_function ev) = Some ds \<longrightarrow>
          map_of (scenes (zone_message_received descriptors ev z)) ds = Some (ev_value ev)"
    unfolding 1 by (simp add: notify_def update_conv')
qed

theorem zone_fallback_scene_names_witness:
  "zone_message_received [repeat] (ok_event ''MAIN'' ''SCENE12NAME'' ''Movie'') (Zone_init ''MAIN'') =
     notify ''SCENE12NAME'' (Some (VStr ''Movie''))
       ((Zone_init ''MAIN'')\<lparr>scenes := [(''12'', ''Movie'')]\<rparr>)
   \<and> zone_message_received [repeat] (ok_event ''MAIN'' ''SCENENAME'' ''x'') (Zone_init ''MAIN'') =
     Zone_init ''MAIN''"
proof -
  have m: "match_scene_name ''SCENE12NAME'' = Some ''12''" "match_scene_name ''SCENENAME'' = None"
    by (simp_all add: match_scene_name_def is_digit_def)
  have sc: "scenes (Zone_init ''MAIN'') = []"
    by (simp add: Zone_init_def reset_internal_state_def)
  show ?thesis
    using zone_fallback_scene_names [of "ok_event ''MAIN'' ''SCENE12NAME'' ''Movie''"
        "Zone_init ''MAIN''" "[repeat]", THEN conjunct1]
      zone_fallback_scene_names [of "ok_event ''MAIN'' ''SCENENAME'' ''x''"
        "Zone_init ''MAIN''" "[repeat]", THEN conjunct1]
    by (simp add: ok_event_def m sc repeat_def YncaFunctionEnum_def)
qed

text \<open>
  Claim C5. A set through a descriptor whose command capability is GET only, as those of
  \<open>playbackinfo\<close>, \<open>artist\<close>, \<open>album\<close>, \<open>song\<close> and \<open>station\<close> are, raises the
  unsupported-operation error for every value and leaves the subunit and the session,
  and with it the list of commands sent, as they were.
\<close>

theorem get_only_set_unsupported:
  "(fd_command_type d = GET_ONLY \<longrightarrow>
      descriptor_set d v s c = (Some UnsupportedOperationError, s, c))
   \<and> (d \<in> set [playbackinfo, artist, album, song, station] \<longrightarrow>
      descriptor_set d v s c = (Some UnsupportedOperationError, s, c))"
  by (auto simp add: descriptor_set_def playbackinfo_def artist_def album_def song_def
      station_def YncaFunctionStr_def YncaFunctionEnum_def)

theorem get_only_set_unsupported_witness:
  "descriptor_set album (VStr ''Other'') dmps new_connection =
     (Some UnsupportedOperationError, dmps, new_connection)
   \<and> descriptor_set playbackinfo (VPlaybackInfo PlaybackInfo_PAUSE) dmps new_connection =
     (Some UnsupportedOperationError, dmps, new_connection)"
  using get_only_set_unsupported [of album "VStr ''Other''" dmps new_connection]
    get_only_set_unsupported [of playbackinfo "VPlaybackInfo PlaybackInfo_PAUSE" dmps new_connection]
  by simp

lemma attrs_dmps:
  "attrs dmps =
     [(''ALBUM'', VStr ''Album''), (''ARTIST'', VStr ''Artist''), (''SONG'', VStr ''Song''),
      (''PLAYBACKINFO'', VPlaybackInfo PlaybackInfo_PAUSE),
      (''REPEAT'', VRepeat Repeat_SINGLE), (''SHUFFLE'', VShuffle Shuffle_ON)]"
  by code_simp

lemma su_id_dmps: "su_id dmps = ''SUBUNIT''"
  by code_simp

text \<open>
  Claim C6. After the dispatch of the OK events of the test to the subunit \<open>SUBUNIT\<close>,
  \<open>repeat\<close> is \<open>Repeat.SINGLE\<close>, \<open>shuffle\<close> is \<open>Shuffle.ON\<close> and \<open>album\<close> is
  \<open>Album\<close>; assigning \<open>Repeat.ALL\<close> to \<open>repeat\<close> sends exactly the command PUT
  \<open>SUBUNIT:REPEAT=All\<close>, and \<open>playback(Playback.PLAY)\<close> sends exactly PUT
  \<open>SUBUNIT:PLAYBACK=Play\<close>.
\<close>

theorem mediaplayback_scenario:
  "descriptor_get repeat dmps = Some (VRepeat Repeat_SINGLE)
   \<and> descriptor_get shuffle dmps = Some (VShuffle Shuffle_ON)
   \<and> descriptor_get album dmps = Some (VStr ''Album'')
   \<and> descriptor_set repeat (VRepeat Repeat_ALL) dmps c =
       (None, dmps, c\<lparr>sent := sent c @ [PUT ''SUBUNIT'' ''REPEAT'' ''All''],
                     num_commands_sent := num_commands_sent c + 1\<rparr>)
   \<and> playback Playback_PLAY dmps c =
       c\<lparr>sent := sent c @ [PUT ''SUBUNIT'' ''PLAYBACK'' ''Play''],
         num_commands_sent := num_commands_sent c + 1\<rparr>"
  by (simp add: descriptor_get_def descriptor_set_def attrs_dmps su_id_dmps playback_def
      subunit_put_def connection_put_def repeat_def shuffle_def album_def YncaFunctionStr_def
      YncaFunctionEnum_def RepeatConverter_def)

end
